theory Spec2Isabelle
  imports Complex_Main "HOL-Library.Word" "HOL-Library.Sublist"
begin

section \<open>Python values used by the notebooks\<close>

text \<open>
  The two notebooks verified here are the TensorFlow object-detection notebook
  (\<^verbatim>\<open>add_detection_box\<close>, \<^verbatim>\<open>visualize_inference_result\<close>, \<^verbatim>\<open>coco_labels_map\<close>) and the
  text-detection notebook (\<^verbatim>\<open>convert_result_to_image\<close> and the cell that removes the
  zero-only rows).  Python integers are \<^typ>\<open>int\<close>.  A float is the \<^typ>\<open>real\<close> number it
  denotes; comparisons, \<^verbatim>\<open>max\<close>, \<^verbatim>\<open>int\<close> and \<^verbatim>\<open>round\<close> of floats are exact on it.  A
  float division or multiplication gives the exact result rounded to the float format.
  Where the text-detection notebook divides and multiplies, the rounding is the parameter
  \<open>rnd\<close> of the model: \<open>binary64\<close> below is double precision, the precision of Python
  floats, and \<open>\<lambda>v. v\<close> is exact arithmetic.  In the object-detection notebook a box sample
  is a float32 value and its product with an image dimension below \<open>2 ^ 29\<close> is exact in
  double precision; the line thickness and the font scale are written on the exact values.
\<close>

datatype py_error = KeyError | IndexError | ValueError | ZeroDivisionError

text \<open>The class name of an exception, as \<^verbatim>\<open>type(e).__name__\<close> gives it.\<close>

fun class_name :: "py_error \<Rightarrow> string" where
  "class_name KeyError = ''KeyError''"
| "class_name IndexError = ''IndexError''"
| "class_name ValueError = ''ValueError''"
| "class_name ZeroDivisionError = ''ZeroDivisionError''"

text \<open>\<open>raises r n\<close>: the outcome \<open>r\<close> is an exception of the class named \<open>n\<close>.\<close>

fun raises :: "py_error + 'a \<Rightarrow> string \<Rightarrow> bool" where
  "raises (Inl e) n = (class_name e = n)"
| "raises (Inr v) n = False"

text \<open>\<^verbatim>\<open>int(x)\<close> on a float truncates towards zero.\<close>

definition py_int :: "real \<Rightarrow> int" where
  "py_int x = (if 0 \<le> x then \<lfloor>x\<rfloor> else \<lceil>x\<rceil>)"

text \<open>\<^verbatim>\<open>round(x)\<close> on a float rounds to the nearest integer, ties to the even one.\<close>

definition py_round :: "real \<Rightarrow> int" where
  "py_round x =
     (let f = \<lfloor>x\<rfloor>; d = x - of_int f
      in if d < 1 / 2 then f else if 1 / 2 < d then f + 1 else if even f then f else f + 1)"

text \<open>
  Rounding to the nearest IEEE double, ties to the even significand: a significand of 53
  bits at the binary exponent of the value (\<open>exponent y\<close> is the integer part of the
  binary logarithm of \<open>y > 0\<close>; \<open>bit_length\<close> is \<^verbatim>\<open>int.bit_length\<close>).  The exponent range
  of the format (overflow beyond \<open>2 ^ 1024\<close>, subnormal numbers below \<open>2 ^ -1022\<close>) is not
  modelled.
\<close>

function bit_length :: "nat \<Rightarrow> nat" where
  "bit_length n = (if n = 0 then 0 else Suc (bit_length (n div 2)))"
  by pat_completeness auto
termination
  by (relation "measure id") auto

definition exponent :: "real \<Rightarrow> int" where
  "exponent y =
     (if 1 \<le> y then int (bit_length (nat \<lfloor>y\<rfloor>)) - 1
      else - int (bit_length (nat (\<lceil>1 / y\<rceil> - 1))))"

definition binary64 :: "real \<Rightarrow> real" where
  "binary64 x =
     (if x = 0 then 0
      else
        let e = exponent \<bar>x\<bar> - 52
        in if 0 \<le> e then real_of_int (py_round (x / 2 ^ nat e)) * 2 ^ nat e
           else real_of_int (py_round (x * 2 ^ nat (- e))) / 2 ^ nat (- e))"

text \<open>
  \<^verbatim>\<open>f"{x:.2f}"\<close>: sign, integer part, a point and two decimals, rounded to the nearest (on
  the idealised real value a tie goes to the even digit).
\<close>

definition digit :: "nat \<Rightarrow> char" where
  "digit d = ''0123456789'' ! (d mod 10)"

function str_nat :: "nat \<Rightarrow> string" where
  "str_nat n = (if n < 10 then [digit n] else str_nat (n div 10) @ [digit (n mod 10)])"
  by pat_completeness auto
termination
  by (relation "measure id") auto

definition format_2f :: "real \<Rightarrow> string" where
  "format_2f x =
     (let n = nat (py_round (\<bar>x\<bar> * 100))
      in (if x < 0 then ''-'' else '''') @ str_nat (n div 100) @ ''.''
           @ [digit (n div 10), digit n])"

section \<open>The label map\<close>

text \<open>
  \<^verbatim>\<open>
  with open(coco_labels_file_path, "r") as file:
      coco_labels = file.read().strip().split("\n")
      coco_labels_map = dict(enumerate(coco_labels, 1))
  \<close>
  \<^verbatim>\<open>str.strip()\<close> removes the leading and the trailing white space (here the ASCII white
  space: tab, line feed, vertical tab, form feed, carriage return, the four separators
  0x1C to 0x1F and the blank); \<^verbatim>\<open>split("\n")\<close> cuts at every line feed and keeps empty
  pieces.
\<close>

definition isspace :: "char \<Rightarrow> bool" where
  "isspace c = (c \<in> {CHR 0x09, CHR 0x0A, CHR 0x0B, CHR 0x0C, CHR 0x0D,
                      CHR 0x1C, CHR 0x1D, CHR 0x1E, CHR 0x1F, CHR 0x20})"

definition str_strip :: "string \<Rightarrow> string" where
  "str_strip s = rev (dropWhile isspace (rev (dropWhile isspace s)))"

fun str_split :: "char \<Rightarrow> string \<Rightarrow> string list" where
  "str_split sep [] = [[]]"
| "str_split sep (c # cs) =
     (if c = sep then [] # str_split sep cs
      else (case str_split sep cs of [] \<Rightarrow> [[c]] | p # ps \<Rightarrow> (c # p) # ps))"

text \<open>\<^verbatim>\<open>enumerate(xs, start)\<close> and \<^verbatim>\<open>dict(pairs)\<close> (a later pair overrides an earlier one).\<close>

fun py_enumerate :: "'a list \<Rightarrow> int \<Rightarrow> (int \<times> 'a) list" where
  "py_enumerate [] start = []"
| "py_enumerate (x # xs) start = (start, x) # py_enumerate xs (start + 1)"

fun dict :: "('k \<times> 'v) list \<Rightarrow> ('k \<rightharpoonup> 'v)" where
  "dict [] = Map.empty"
| "dict ((k, v) # kvs) = (\<lambda>x. case dict kvs x of Some w \<Rightarrow> Some w
                                 | None \<Rightarrow> if x = k then Some v else None)"

definition coco_labels_map :: "string \<Rightarrow> (int \<rightharpoonup> string)" where
  "coco_labels_map file_content =
     (let coco_labels = str_split (CHR 0x0A) (str_strip file_content)
      in dict (py_enumerate coco_labels 1))"

text \<open>\<^verbatim>\<open>labels_map[key]\<close>: a missing key raises \<^verbatim>\<open>KeyError\<close>.\<close>

definition getitem :: "('k \<rightharpoonup> 'v) \<Rightarrow> 'k \<Rightarrow> py_error + 'v" where
  "getitem d k = (case d k of None \<Rightarrow> Inl KeyError | Some v \<Rightarrow> Inr v)"

section \<open>Images, the object store and the drawing calls of OpenCV\<close>

text \<open>
  An image is a NumPy array of shape (height, width, channels) of unsigned 8-bit samples.
  OpenCV's rasterisation is not part of the repository: an image buffer is given by the
  samples it was created with and by the sequence of OpenCV calls applied to it since,
  oldest first.  Two buffers with the same samples and the same calls hold the same
  picture.
\<close>

type_synonym point = "int \<times> int"
type_synonym color = "int \<times> int \<times> int"

datatype line_type = LINE_8 | LINE_AA

datatype cv2_call =
    CvtColor_BGR2RGB
  | Rectangle point point color int line_type
      \<comment> \<open>pt1, pt2, color, thickness (-1 fills), lineType\<close>
  | PutText string point int real color int line_type
      \<comment> \<open>text, org, fontFace, fontScale, color, thickness, lineType\<close>

record image =
  shape :: "nat \<times> nat \<times> nat"
  samples :: "8 word list"
  drawn :: "cv2_call list"

text \<open>
  Arrays are objects: a variable holds a reference, and \<^verbatim>\<open>cv2.rectangle\<close> and
  \<^verbatim>\<open>cv2.putText\<close> write into the array they are given.  The store is the list of the
  arrays allocated so far, a reference is an index into it.  The state also carries the
  generator behind \<^verbatim>\<open>random.randint\<close> (the sequence of raw values it will produce) and
  the pictures handed to \<^verbatim>\<open>plt.imshow\<close>.
\<close>

type_synonym ref = nat

record state =
  heap :: "image list"
  rng :: "nat \<Rightarrow> nat"
  shown :: "image list"

definition alloc :: "image \<Rightarrow> state \<Rightarrow> ref \<times> state" where
  "alloc img s = (length (heap s), s\<lparr>heap := heap s @ [img]\<rparr>)"

definition cv2_call :: "cv2_call \<Rightarrow> ref \<Rightarrow> state \<Rightarrow> ref \<times> state" where
  \<comment> \<open>a drawing call writes into the array \<open>img\<close> and returns that same array\<close>
  "cv2_call c img s =
     (img, s\<lparr>heap := (heap s)[img := (heap s ! img)\<lparr>drawn := drawn (heap s ! img) @ [c]\<rparr>]\<rparr>)"

definition cv2_rectangle ::
  "ref \<Rightarrow> point \<Rightarrow> point \<Rightarrow> color \<Rightarrow> int \<Rightarrow> line_type \<Rightarrow> state \<Rightarrow> ref \<times> state" where
  "cv2_rectangle img pt1 pt2 col thickness lt = cv2_call (Rectangle pt1 pt2 col thickness lt) img"

definition cv2_putText ::
  "ref \<Rightarrow> string \<Rightarrow> point \<Rightarrow> int \<Rightarrow> real \<Rightarrow> color \<Rightarrow> int \<Rightarrow> line_type \<Rightarrow> state
     \<Rightarrow> ref \<times> state" where
  "cv2_putText img txt org font_face font_scale col thickness lt =
     cv2_call (PutText txt org font_face font_scale col thickness lt) img"

definition cv2_cvtColor_BGR2RGB :: "ref \<Rightarrow> state \<Rightarrow> ref \<times> state" where
  \<comment> \<open>returns a new array\<close>
  "cv2_cvtColor_BGR2RGB src s =
     alloc ((heap s ! src)\<lparr>drawn := drawn (heap s ! src) @ [CvtColor_BGR2RGB]\<rparr>) s"

definition np_copy :: "ref \<Rightarrow> state \<Rightarrow> ref \<times> state" where
  "np_copy src s = alloc (heap s ! src) s"

definition plt_imshow :: "ref \<Rightarrow> state \<Rightarrow> state" where
  "plt_imshow img s = s\<lparr>shown := shown s @ [heap s ! img]\<rparr>"

definition randint :: "int \<Rightarrow> int \<Rightarrow> state \<Rightarrow> int \<times> state" where
  \<comment> \<open>\<^verbatim>\<open>random.randint(a, b)\<close> for \<open>a \<le> b\<close>: the next raw value, reduced into \<open>[a, b]\<close>\<close>
  "randint a b s = (a + int (rng s 0) mod (b - a + 1), s\<lparr>rng := (\<lambda>n. rng s (Suc n))\<rparr>)"

section \<open>The box renderer\<close>

text \<open>
  \<^verbatim>\<open>
  def add_detection_box(box, image, label=None):
      ymin, xmin, ymax, xmax = box
      point1, point2 = (int(xmin), int(ymin)), (int(xmax), int(ymax))
      box_color = [random.randint(0, 255) for _ in range(3)]
      line_thickness = round(0.002 * (image.shape[0] + image.shape[1]) / 2) + 1
      cv2.rectangle(img=image, pt1=point1, pt2=point2, color=box_color,
                    thickness=line_thickness, lineType=cv2.LINE_AA)
      if label:
          font_thickness = max(line_thickness - 1, 1)
          font_face = 0
          font_scale = line_thickness / 3
          font_color = (255, 255, 255)
          text_size = cv2.getTextSize(text=label, fontFace=font_face,
                                      fontScale=font_scale, thickness=font_thickness)[0]
          rectangle_point1 = point1
          rectangle_point2 = (point1[0] + text_size[0], point1[1] - text_size[1] - 3)
          cv2.rectangle(img=image, pt1=rectangle_point1, pt2=rectangle_point2,
                        color=box_color, thickness=-1, lineType=cv2.LINE_AA)
          text_position = point1[0], point1[1] - 3
          cv2.putText(img=image, text=label, org=text_position, fontFace=font_face,
                      fontScale=font_scale, color=font_color, thickness=font_thickness,
                      lineType=cv2.LINE_AA)
      return image
  \<close>
  A box is a row of the \<open>(1, N, 4)\<close> tensor \<^verbatim>\<open>detection_boxes\<close>, in the order
  \<open>[ymin, xmin, ymax, xmax]\<close>.  \<^verbatim>\<open>cv2.getTextSize\<close> is OpenCV's; it is a parameter.  The argument \<^verbatim>\<open>image\<close>
  is written \<open>img\<close>.
  \<^verbatim>\<open>if label:\<close> holds for a string that is not empty.
\<close>

type_synonym box = "real \<times> real \<times> real \<times> real"

type_synonym get_text_size = "string \<Rightarrow> int \<Rightarrow> real \<Rightarrow> int \<Rightarrow> int \<times> int"

definition truthy :: "string option \<Rightarrow> bool" where
  "truthy label = (case label of None \<Rightarrow> False | Some l \<Rightarrow> l \<noteq> [])"

definition line_thickness_of :: "image \<Rightarrow> int" where
  "line_thickness_of img =
     (case shape img of (h, w, c) \<Rightarrow> py_round (0.002 * (real h + real w) / 2) + 1)"

definition add_detection_box ::
  "get_text_size \<Rightarrow> box \<Rightarrow> ref \<Rightarrow> string option \<Rightarrow> state \<Rightarrow> ref \<times> state" where
  "add_detection_box getTextSize box img label s =
     (case box of (ymin, xmin, ymax, xmax) \<Rightarrow>
      let point1 = (py_int xmin, py_int ymin); point2 = (py_int xmax, py_int ymax);
          (c0, s0) = randint 0 255 s;
          (c1, s1) = randint 0 255 s0;
          (c2, s2) = randint 0 255 s1;
          box_color = (c0, c1, c2);
          line_thickness = line_thickness_of (heap s2 ! img);
          (_, s3) = cv2_rectangle img point1 point2 box_color line_thickness LINE_AA s2
      in if truthy label then
           let font_thickness = max (line_thickness - 1) 1;
               font_face = 0;
               font_scale = real_of_int line_thickness / 3;
               font_color = (255, 255, 255);
               text_size = getTextSize (the label) font_face font_scale font_thickness;
               rectangle_point1 = point1;
               rectangle_point2 = (fst point1 + fst text_size, snd point1 - snd text_size - 3);
               (_, s4) = cv2_rectangle img rectangle_point1 rectangle_point2 box_color (-1)
                           LINE_AA s3;
               text_position = (fst point1, snd point1 - 3);
               (_, s5) = cv2_putText img (the label) text_position font_face font_scale
                           font_color font_thickness LINE_AA s4
           in (img, s5)
         else (img, s3))"

section \<open>The visualization of the object-detection notebook\<close>

text \<open>
  \<^verbatim>\<open>
  def visualize_inference_result(inference_result, image, labels_map, detections_limit=None):
      detection_boxes = inference_result.get("detection_boxes")
      detection_classes = inference_result.get("detection_classes")
      detection_scores = inference_result.get("detection_scores")
      num_detections = inference_result.get("num_detections")
      detections_limit = int(
          min(detections_limit, num_detections[0])
          if detections_limit is not None
          else num_detections[0]
      )
      # Normalize detection boxes coordinates to original image size
      original_image_height, original_image_width, _ = image.shape
      normalized_detection_boxex = detection_boxes[::] * [
          original_image_height, original_image_width,
          original_image_height, original_image_width,
      ]
      image_with_detection_boxex = np.copy(image)
      for i in range(detections_limit):
          detected_class_name = labels_map[int(detection_classes[0, i])]
          score = detection_scores[0, i]
          label = f"{detected_class_name} {score:.2f}"
          add_detection_box(box=normalized_detection_boxex[0, i],
                            image=image_with_detection_boxex, label=label)
      plt.imshow(image_with_detection_boxex)
  \<close>
  The model's outputs are tensors of shape \<open>(1, N, 4)\<close>, \<open>(1, N)\<close>, \<open>(1, N)\<close> and \<open>(1)\<close>.
  A function that can raise returns its outcome together with the state reached, since
  what was written before the exception stays written.
\<close>

record inference_result =
  detection_boxes :: "box list list"
  detection_classes :: "real list list"
  detection_scores :: "real list list"
  num_detections :: "real list"

definition index1 :: "'a list \<Rightarrow> nat \<Rightarrow> py_error + 'a" where
  "index1 xs i = (if i < length xs then Inr (xs ! i) else Inl IndexError)"

definition index2 :: "'a list list \<Rightarrow> nat \<Rightarrow> nat \<Rightarrow> py_error + 'a" where
  "index2 xss b i = (case index1 xss b of Inl e \<Rightarrow> Inl e | Inr xs \<Rightarrow> index1 xs i)"

definition normalize_box :: "nat \<Rightarrow> nat \<Rightarrow> box \<Rightarrow> box" where
  "normalize_box original_image_height original_image_width b =
     (case b of (ymin, xmin, ymax, xmax) \<Rightarrow>
        (ymin * real original_image_height, xmin * real original_image_width,
         ymax * real original_image_height, xmax * real original_image_width))"

fun visualize_loop ::
  "get_text_size \<Rightarrow> (int \<rightharpoonup> string) \<Rightarrow> real list list \<Rightarrow> real list list \<Rightarrow> box list list
     \<Rightarrow> ref \<Rightarrow> nat list \<Rightarrow> state \<Rightarrow> (py_error + unit) \<times> state" where
  "visualize_loop gts labels_map classes scores boxes img [] s = (Inr (), s)"
| "visualize_loop gts labels_map classes scores boxes img (i # idxs) s =
     (case index2 classes 0 i of Inl e \<Rightarrow> (Inl e, s) | Inr c \<Rightarrow>
      case getitem labels_map (py_int c) of Inl e \<Rightarrow> (Inl e, s) | Inr detected_class_name \<Rightarrow>
      case index2 scores 0 i of Inl e \<Rightarrow> (Inl e, s) | Inr score \<Rightarrow>
      let label = detected_class_name @ '' '' @ format_2f score
      in case index2 boxes 0 i of Inl e \<Rightarrow> (Inl e, s) | Inr b \<Rightarrow>
         let (_, s') = add_detection_box gts b img (Some label) s
         in visualize_loop gts labels_map classes scores boxes img idxs s')"

definition visualize_inference_result ::
  "get_text_size \<Rightarrow> inference_result \<Rightarrow> ref \<Rightarrow> (int \<rightharpoonup> string) \<Rightarrow> int option \<Rightarrow> state
     \<Rightarrow> (py_error + unit) \<times> state" where
  "visualize_inference_result gts inference_result img labels_map detections_limit s =
     (case index1 (num_detections inference_result) 0 of Inl e \<Rightarrow> (Inl e, s) | Inr nd \<Rightarrow>
      let limit = py_int (case detections_limit of Some l \<Rightarrow> min (real_of_int l) nd | None \<Rightarrow> nd)
      in case shape (heap s ! img) of (original_image_height, original_image_width, _) \<Rightarrow>
         let normalized_detection_boxex =
               map (map (normalize_box original_image_height original_image_width))
                 (detection_boxes inference_result);
             (image_with_detection_boxex, s1) = np_copy img s
         in case visualize_loop gts labels_map (detection_classes inference_result)
                   (detection_scores inference_result) normalized_detection_boxex
                   image_with_detection_boxex [0..<nat limit] s1 of
              (Inl e, s2) \<Rightarrow> (Inl e, s2)
            | (Inr _, s2) \<Rightarrow> (Inr (), plt_imshow image_with_detection_boxex s2))"

section \<open>The visualization of the text-detection notebook\<close>

text \<open>
  \<^verbatim>\<open>
  # Remove zero only boxes.
  boxes = boxes[~np.all(boxes == 0, axis=1)]
  \<close>
  \<^verbatim>\<open>boxes\<close> is the \<open>(N, 5)\<close> output of the model; a row is
  \<open>[x_min, y_min, x_max, y_max, conf]\<close>.
\<close>

definition remove_zero_only_boxes :: "real list list \<Rightarrow> real list list" where
  "remove_zero_only_boxes boxes = filter (\<lambda>row. \<not> list_all (\<lambda>v. v = 0) row) boxes"

text \<open>
  \<^verbatim>\<open>
  def convert_result_to_image(bgr_image, resized_image, boxes, threshold=0.3, conf_labels=True):
      colors = {"red": (255, 0, 0), "green": (0, 255, 0)}
      (real_y, real_x), (resized_y, resized_x) = bgr_image.shape[:2], resized_image.shape[:2]
      ratio_x, ratio_y = real_x / resized_x, real_y / resized_y
      rgb_image = cv2.cvtColor(bgr_image, cv2.COLOR_BGR2RGB)
      for box in boxes:
          conf = box[-1]
          if conf > threshold:
              # If the bounding box is found at the top of the image,
              # position the upper box bar little lower to make it visible on the image.
              (x_min, y_min, x_max, y_max) = [
                  int(max(corner_position * ratio_y, 10)) if idx % 2
                  else int(corner_position * ratio_x)
                  for idx, corner_position in enumerate(box[:-1])
              ]
              rgb_image = cv2.rectangle(rgb_image, (x_min, y_min), (x_max, y_max),
                                        colors["green"], 3)
              if conf_labels:
                  rgb_image = cv2.putText(rgb_image, f"{conf:.2f}", (x_min, y_min - 10),
                                          cv2.FONT_HERSHEY_SIMPLEX, 0.8, colors["red"], 1,
                                          cv2.LINE_AA)
      return rgb_image
  \<close>
  The list comprehension that rescales the corners of one box is \<open>rescale_corners\<close>.
  The two divisions and the products of a corner and a ratio are float operations: each
  is the exact result under the rounding \<open>rnd\<close>.
\<close>

definition red :: color where "red = (255, 0, 0)"
definition green :: color where "green = (0, 255, 0)"

definition FONT_HERSHEY_SIMPLEX :: int where "FONT_HERSHEY_SIMPLEX = 0"

definition rescale_corners :: "(real \<Rightarrow> real) \<Rightarrow> real \<Rightarrow> real \<Rightarrow> real list \<Rightarrow> int list" where
  "rescale_corners rnd ratio_x ratio_y corners =
     map (\<lambda>(idx, corner_position).
            if idx mod 2 \<noteq> 0 then py_int (max (rnd (corner_position * ratio_y)) 10)
            else py_int (rnd (corner_position * ratio_x)))
       (py_enumerate corners 0)"

fun convert_loop ::
  "(real \<Rightarrow> real) \<Rightarrow> real \<Rightarrow> real \<Rightarrow> real \<Rightarrow> bool \<Rightarrow> ref \<Rightarrow> real list list \<Rightarrow> state
     \<Rightarrow> (py_error + ref) \<times> state" where
  "convert_loop rnd ratio_x ratio_y threshold conf_labels rgb_image [] s = (Inr rgb_image, s)"
| "convert_loop rnd ratio_x ratio_y threshold conf_labels rgb_image (box # boxes) s =
     (if box = [] then (Inl IndexError, s)
      else
        let conf = last box
        in if conf > threshold then
             (case rescale_corners rnd ratio_x ratio_y (butlast box) of
                [x_min, y_min, x_max, y_max] \<Rightarrow>
                  let (rgb_image1, s1) =
                        cv2_rectangle rgb_image (x_min, y_min) (x_max, y_max) green 3 LINE_8 s;
                      (rgb_image2, s2) =
                        (if conf_labels then
                           cv2_putText rgb_image1 (format_2f conf) (x_min, y_min - 10)
                             FONT_HERSHEY_SIMPLEX 0.8 red 1 LINE_AA s1
                         else (rgb_image1, s1))
                  in convert_loop rnd ratio_x ratio_y threshold conf_labels rgb_image2 boxes s2
              | _ \<Rightarrow> (Inl ValueError, s))
           else convert_loop rnd ratio_x ratio_y threshold conf_labels rgb_image boxes s)"

definition convert_result_to_image ::
  "(real \<Rightarrow> real) \<Rightarrow> ref \<Rightarrow> ref \<Rightarrow> real list list \<Rightarrow> real \<Rightarrow> bool \<Rightarrow> state
     \<Rightarrow> (py_error + ref) \<times> state" where
  "convert_result_to_image rnd bgr_image resized_image boxes threshold conf_labels s =
     (case (shape (heap s ! bgr_image), shape (heap s ! resized_image)) of
        ((real_y, real_x, _), (resized_y, resized_x, _)) \<Rightarrow>
          if resized_x = 0 \<or> resized_y = 0 then (Inl ZeroDivisionError, s)
          else
            let ratio_x = rnd (real real_x / real resized_x);
                ratio_y = rnd (real real_y / real resized_y);
                (rgb_image, s1) = cv2_cvtColor_BGR2RGB bgr_image s
            in convert_loop rnd ratio_x ratio_y threshold conf_labels rgb_image boxes s1)"

section \<open>Auxiliary notions for the statements\<close>

text \<open>The text resource with the two lines \<^verbatim>\<open>cat\<close> and \<^verbatim>\<open>dog\<close>.\<close>

definition cat_dog_file :: string where
  "cat_dog_file = ''cat'' @ [CHR 0x0A] @ ''dog'' @ [CHR 0x0A]"

text \<open>The colour that three calls of \<^verbatim>\<open>random.randint(0, 255)\<close> give on a generator.\<close>

definition box_color_of :: "(nat \<Rightarrow> nat) \<Rightarrow> color" where
  "box_color_of g = (int (g 0) mod 256, int (g (Suc 0)) mod 256, int (g (Suc (Suc 0))) mod 256)"

text \<open>
  The OpenCV calls that one run of \<^verbatim>\<open>add_detection_box\<close> makes on an image, for a box, a
  label and a box colour: the outline, and for a label that is not empty the filled
  rectangle and the text.
\<close>

definition detection_box_calls ::
  "get_text_size \<Rightarrow> image \<Rightarrow> box \<Rightarrow> string option \<Rightarrow> color \<Rightarrow> cv2_call list" where
  "detection_box_calls gts im b label col =
     (case b of (ymin, xmin, ymax, xmax) \<Rightarrow>
        Rectangle (py_int xmin, py_int ymin) (py_int xmax, py_int ymax) col
            (line_thickness_of im) LINE_AA
        # (if truthy label then
             [Rectangle (py_int xmin, py_int ymin)
                (py_int xmin + fst (gts (the label) 0 (real_of_int (line_thickness_of im) / 3)
                                      (max (line_thickness_of im - 1) 1)),
                 py_int ymin - snd (gts (the label) 0 (real_of_int (line_thickness_of im) / 3)
                                      (max (line_thickness_of im - 1) 1)) - 3)
                col (-1) LINE_AA,
              PutText (the label) (py_int xmin, py_int ymin - 3) 0
                (real_of_int (line_thickness_of im) / 3) (255, 255, 255)
                (max (line_thickness_of im - 1) 1) LINE_AA]
           else []))"

text \<open>The store after the calls \<open>cs\<close> were made on the array \<open>r\<close>.\<close>

definition draw_on :: "ref \<Rightarrow> cv2_call list \<Rightarrow> image list \<Rightarrow> image list" where
  "draw_on r cs h = h[r := (h ! r)\<lparr>drawn := drawn (h ! r) @ cs\<rparr>]"

text \<open>A small store for the concrete instances: two black 100 by 100 images.\<close>

definition example_image :: image where
  "example_image = \<lparr>shape = (100, 100, 3), samples = replicate 30000 0, drawn = []\<rparr>"

definition example_state :: "(nat \<Rightarrow> nat) \<Rightarrow> state" where
  "example_state g = \<lparr>heap = [example_image, example_image], rng = g, shown = []\<rparr>"

definition example_text_size :: get_text_size where
  "example_text_size txt font_face font_scale thickness = (10 * int (length txt), 10)"

text \<open>
  The calls that rendering a sequence of (box, label) pairs makes, one run of
  \<^verbatim>\<open>add_detection_box\<close> after the other, each taking three values from the generator.
\<close>

fun rendered_calls ::
  "get_text_size \<Rightarrow> image \<Rightarrow> (box \<times> string) list \<Rightarrow> (nat \<Rightarrow> nat) \<Rightarrow> cv2_call list" where
  "rendered_calls gts im [] g = []"
| "rendered_calls gts im ((b, l) # ds) g =
     detection_box_calls gts im b (Some l) (box_color_of g)
       @ rendered_calls gts im ds (\<lambda>n. g (Suc (Suc (Suc n))))"

text \<open>The \<open>i\<close>-th detection of a batch as the loop of \<^verbatim>\<open>visualize_inference_result\<close> renders it.\<close>

definition detection_at ::
  "(int \<rightharpoonup> string) \<Rightarrow> real list list \<Rightarrow> real list list \<Rightarrow> box list list \<Rightarrow> nat \<Rightarrow> box \<times> string" where
  "detection_at labels_map classes scores boxes i =
     (boxes ! 0 ! i,
      the (labels_map (py_int (classes ! 0 ! i))) @ '' '' @ format_2f (scores ! 0 ! i))"

text \<open>A batch of two detections, of scores 0.9 and 0, for the concrete instances.\<close>

definition example_result :: inference_result where
  "example_result =
     \<lparr>detection_boxes = [[(0.1, 0.1, 0.5, 0.5), (0.2, 0.3, 0.6, 0.8)]],
      detection_classes = [[1, 2]],
      detection_scores = [[0.9, 0]],
      num_detections = [2]\<rparr>"

text \<open>
  The exception, if any, that the body of the loop of \<^verbatim>\<open>visualize_inference_result\<close> raises
  at the index \<open>i\<close>: the class, the label, the score and the box are read in this order.
\<close>

definition detection_error ::
  "(int \<rightharpoonup> string) \<Rightarrow> real list list \<Rightarrow> real list list \<Rightarrow> box list list \<Rightarrow> nat
     \<Rightarrow> py_error option" where
  "detection_error labels_map classes scores boxes i =
     (if classes = [] \<or> length (classes ! 0) \<le> i then Some IndexError
      else if labels_map (py_int (classes ! 0 ! i)) = None then Some KeyError
      else if scores = [] \<or> length (scores ! 0) \<le> i then Some IndexError
      else if boxes = [] \<or> length (boxes ! 0) \<le> i then Some IndexError
      else None)"

text \<open>
  The box and the label that the loop hands to \<^verbatim>\<open>add_detection_box\<close> at the index \<open>i\<close>, for
  an image of height \<open>h\<close> and width \<open>w\<close>.
\<close>

definition rendered_detection ::
  "nat \<Rightarrow> nat \<Rightarrow> (int \<rightharpoonup> string) \<Rightarrow> inference_result \<Rightarrow> nat \<Rightarrow> box \<times> string" where
  "rendered_detection h w labels_map ir i =
     (case detection_boxes ir ! 0 ! i of (ymin, xmin, ymax, xmax) \<Rightarrow>
        ((ymin * real h, xmin * real w, ymax * real h, xmax * real w),
         the (labels_map (py_int (detection_classes ir ! 0 ! i))) @ '' ''
           @ format_2f (detection_scores ir ! 0 ! i)))"

text \<open>
  A store with one image of height 100 and width 200, and a batch whose second class is
  not in a label map that starts at 1.
\<close>

definition example_wide_state :: state where
  "example_wide_state =
     \<lparr>heap = [\<lparr>shape = (100, 200, 3), samples = replicate 60000 0, drawn = []\<rparr>],
      rng = (\<lambda>_. 7), shown = []\<rparr>"

definition example_result_unknown_class :: inference_result where
  "example_result_unknown_class =
     \<lparr>detection_boxes = [[(0.1, 0.1, 0.5, 0.5), (0.2, 0.3, 0.6, 0.8)]],
      detection_classes = [[1, 0]],
      detection_scores = [[0.9, 0.8]],
      num_detections = [2]\<rparr>"

text \<open>
  The calls that \<^verbatim>\<open>convert_result_to_image\<close> makes for one row
  \<open>[x_min, y_min, x_max, y_max, conf]\<close> that passes the threshold.
\<close>

definition retained_box_calls :: "(real \<Rightarrow> real) \<Rightarrow> real \<Rightarrow> real \<Rightarrow> bool \<Rightarrow> real list \<Rightarrow> cv2_call list" where
  "retained_box_calls rnd ratio_x ratio_y conf_labels box =
     (case box of
        [x_min, y_min, x_max, y_max, conf] \<Rightarrow>
          Rectangle (py_int (rnd (x_min * ratio_x)), max (py_int (rnd (y_min * ratio_y))) 10)
                    (py_int (rnd (x_max * ratio_x)), max (py_int (rnd (y_max * ratio_y))) 10) green 3 LINE_8
          # (if conf_labels then
               [PutText (format_2f conf)
                  (py_int (rnd (x_min * ratio_x)), max (py_int (rnd (y_min * ratio_y))) 10 - 10)
                  FONT_HERSHEY_SIMPLEX 0.8 red 1 LINE_AA]
             else [])
      | _ \<Rightarrow> [])"

text \<open>The number of rectangles drawn on an image.\<close>

fun is_rectangle :: "cv2_call \<Rightarrow> bool" where
  "is_rectangle (Rectangle pt1 pt2 col thickness lt) = True"
| "is_rectangle c = False"

definition count_rectangles :: "image \<Rightarrow> nat" where
  "count_rectangles im = length (filter is_rectangle (drawn im))"


section \<open>Properties of the label map\<close>

lemma dict_py_enumerate:
  "dict (py_enumerate xs start) k =
     (if start \<le> k \<and> k < start + int (length xs) then Some (xs ! nat (k - start)) else None)"
proof (induction xs arbitrary: start)
  case Nil
  then show ?case by simp
next
  case (Cons x xs)
  have "nat (k - start) = Suc (nat (k - (start + 1)))" if "start + 1 \<le> k"
    using that by linarith
  then show ?case
    by (auto simp: Cons.IH)
qed

lemma cat_dog_labels: "str_split (CHR 0x0A) (str_strip cat_dog_file) = [''cat'', ''dog'']"
  by (simp add: cat_dog_file_def str_strip_def isspace_def)

text \<open>
  Claim C7, as the code has it.  The label map built with \<^verbatim>\<open>enumerate(coco_labels, 1)\<close> from
  the two-line resource maps 1 to \<^verbatim>\<open>cat\<close> and 2 to \<^verbatim>\<open>dog\<close>, and the lookup
  \<^verbatim>\<open>labels_map[k]\<close> of every other index \<open>k\<close> raises Python's \<^verbatim>\<open>KeyError\<close>; no string is
  returned.
\<close>

theorem label_map_lookup:
  "getitem (coco_labels_map cat_dog_file) 1 = Inr ''cat'' \<and>
   getitem (coco_labels_map cat_dog_file) 2 = Inr ''dog'' \<and>
   (k < 1 \<or> 2 < k \<longrightarrow> raises (getitem (coco_labels_map cat_dog_file) k) ''KeyError'')"
  by (simp add: getitem_def coco_labels_map_def cat_dog_labels dict_py_enumerate)

theorem label_map_lookup_witness:
  "((0::int) < 1 \<or> 2 < (0::int)) \<and>
   raises (getitem (coco_labels_map cat_dog_file) 0) ''KeyError''"
  using label_map_lookup [of 0] by simp

text \<open>
  Claim C7, as stated, fails: the lookup of index 0 does not raise an exception of a class
  named \<^verbatim>\<open>LabelNotFoundError\<close>.
\<close>

theorem label_map_lookup_counterexample:
  "\<not> raises (getitem (coco_labels_map cat_dog_file) 0) ''LabelNotFoundError''"
  by (simp add: getitem_def coco_labels_map_def cat_dog_labels dict_py_enumerate)

section \<open>Properties of the box renderer\<close>

lemma line_thickness_of_drawn [simp]:
  "line_thickness_of (im\<lparr>drawn := d\<rparr>) = line_thickness_of im"
  by (simp add: line_thickness_of_def)

lemma add_detection_box_eq:
  assumes "img < length (heap s)"
  shows "add_detection_box gts b img label s =
           (img, s\<lparr>heap := draw_on img
                              (detection_box_calls gts (heap s ! img) b label (box_color_of (rng s)))
                              (heap s),
                    rng := (\<lambda>n. rng s (Suc (Suc (Suc n))))\<rparr>)"
  using assms
  by (cases b)
     (simp add: add_detection_box_def randint_def cv2_rectangle_def cv2_putText_def cv2_call_def
        detection_box_calls_def draw_on_def box_color_of_def Let_def)

lemma length_draw_on [simp]: "length (draw_on r cs h) = length h"
  by (simp add: draw_on_def)

lemma nth_draw_on_same:
  "r < length h \<Longrightarrow> draw_on r cs h ! r = (h ! r)\<lparr>drawn := drawn (h ! r) @ cs\<rparr>"
  by (simp add: draw_on_def)

lemma nth_draw_on_other: "q \<noteq> r \<Longrightarrow> draw_on r cs h ! q = h ! q"
  by (simp add: draw_on_def)

lemma draw_on_draw_on:
  "r < length h \<Longrightarrow> draw_on r cs2 (draw_on r cs1 h) = draw_on r (cs1 @ cs2) h"
  by (simp add: draw_on_def)

lemma draw_on_Nil: "r < length h \<Longrightarrow> draw_on r [] h = h"
  by (simp add: draw_on_def)

text \<open>
  Claim C9.  \<^verbatim>\<open>add_detection_box\<close> returns the reference it was given; it allocates no
  array; every other array of the store is untouched; and the array it was given has
  received, after the calls made on it before, the outline of the box and, for a label
  that is not empty, the filled rectangle and the text (three calls), else the outline
  only.  A label that is \<^verbatim>\<open>None\<close> or the empty string draws no label.
\<close>

theorem add_detection_box_in_place:
  assumes "img < length (heap s)" and "add_detection_box gts b img label s = (r, s')"
  shows "r = img \<and>
         length (heap s') = length (heap s) \<and>
         (\<forall>q. q \<noteq> img \<longrightarrow> heap s' ! q = heap s ! q) \<and>
         heap s' ! img =
           (heap s ! img)\<lparr>drawn := drawn (heap s ! img)
              @ detection_box_calls gts (heap s ! img) b label (box_color_of (rng s))\<rparr> \<and>
         length (detection_box_calls gts (heap s ! img) b label (box_color_of (rng s)))
           = (if truthy label then 3 else 1)"
proof -
  from assms have s': "s' = s\<lparr>heap := draw_on img
      (detection_box_calls gts (heap s ! img) b label (box_color_of (rng s))) (heap s),
      rng := (\<lambda>n. rng s (Suc (Suc (Suc n))))\<rparr>" and r: "r = img"
    by (auto simp: add_detection_box_eq)
  have "length (detection_box_calls gts (heap s ! img) b label (box_color_of (rng s)))
           = (if truthy label then 3 else 1)"
    by (cases b) (simp add: detection_box_calls_def)
  with assms(1) r show ?thesis
    by (simp add: s' nth_draw_on_same nth_draw_on_other)
qed

theorem add_detection_box_in_place_witness:
  "0 < length (heap (example_state (\<lambda>_. 7))) \<and>
   fst (add_detection_box example_text_size (10, 10, 50, 50) 0 (Some ''cat'')
          (example_state (\<lambda>_. 7))) = 0 \<and>
   heap (snd (add_detection_box example_text_size (10, 10, 50, 50) 0 (Some ''cat'')
          (example_state (\<lambda>_. 7)))) ! 0 =
     example_image\<lparr>drawn :=
        [Rectangle (10, 10) (50, 50) (7, 7, 7) 1 LINE_AA,
         Rectangle (10, 10) (40, -3) (7, 7, 7) (-1) LINE_AA,
         PutText ''cat'' (10, 7) 0 (1 / 3) (255, 255, 255) 1 LINE_AA]\<rparr>"
proof -
  let ?run = "add_detection_box example_text_size (10, 10, 50, 50) 0 (Some ''cat'')
          (example_state (\<lambda>_. 7))"
  have v: "0 < length (heap (example_state (\<lambda>_. 7)))"
    by (simp add: example_state_def)
  have e: "?run = (fst ?run, snd ?run)"
    by simp
  from add_detection_box_in_place [OF v e] show ?thesis
    by (simp add: example_state_def detection_box_calls_def box_color_of_def
          line_thickness_of_def py_round_def truthy_def example_text_size_def py_int_def
          example_image_def)
qed

section \<open>Properties of the visualization of the object-detection notebook\<close>

lemma detection_box_calls_drawn [simp]:
  "detection_box_calls gts (im\<lparr>drawn := d\<rparr>) b label col = detection_box_calls gts im b label col"
  by (cases b) (simp add: detection_box_calls_def)

lemma rendered_calls_drawn [simp]:
  "rendered_calls gts (im\<lparr>drawn := d\<rparr>) ds g = rendered_calls gts im ds g"
  by (induction ds arbitrary: g) auto

lemma visualize_loop_error:
  assumes "detection_error labels_map classes scores boxes i = Some e"
  shows "visualize_loop gts labels_map classes scores boxes cp (i # idxs) s = (Inl e, s)"
  using assms
  by (auto simp: detection_error_def index2_def index1_def getitem_def
        split: if_splits option.splits)

lemma visualize_loop_next:
  assumes "detection_error labels_map classes scores boxes i = None" and "cp < length (heap s)"
  shows "visualize_loop gts labels_map classes scores boxes cp (i # idxs) s =
           visualize_loop gts labels_map classes scores boxes cp idxs
             (s\<lparr>heap := draw_on cp
                  (detection_box_calls gts (heap s ! cp) (fst (detection_at labels_map classes scores boxes i))
                     (Some (snd (detection_at labels_map classes scores boxes i)))
                     (box_color_of (rng s))) (heap s),
                rng := (\<lambda>n. rng s (Suc (Suc (Suc n))))\<rparr>)"
  using assms
  by (auto simp: detection_error_def index2_def index1_def getitem_def add_detection_box_eq
        detection_at_def split: if_splits option.splits)

lemma visualize_loop_run:
  assumes "cp < length (heap s)"
  shows "visualize_loop gts labels_map classes scores boxes cp idxs s =
           (case find (\<lambda>i. detection_error labels_map classes scores boxes i \<noteq> None) idxs of
              None \<Rightarrow> Inr ()
            | Some i \<Rightarrow> Inl (the (detection_error labels_map classes scores boxes i)),
            s\<lparr>heap := draw_on cp
                 (rendered_calls gts (heap s ! cp)
                    (map (detection_at labels_map classes scores boxes)
                       (takeWhile (\<lambda>i. detection_error labels_map classes scores boxes i = None) idxs))
                    (rng s))
                 (heap s),
               rng := (\<lambda>n. rng s (n + 3 * length
                 (takeWhile (\<lambda>i. detection_error labels_map classes scores boxes i = None) idxs)))\<rparr>)"
  using assms
proof (induction idxs arbitrary: s)
  case Nil
  then show ?case by (simp add: draw_on_Nil)
next
  case (Cons i idxs)
  show ?case
  proof (cases "detection_error labels_map classes scores boxes i")
    case (Some e)
    then show ?thesis
      using Cons.prems by (simp add: visualize_loop_error draw_on_Nil del: visualize_loop.simps)
  next
    case None
    let ?c = "detection_box_calls gts (heap s ! cp) (fst (detection_at labels_map classes scores boxes i))
                (Some (snd (detection_at labels_map classes scores boxes i))) (box_color_of (rng s))"
    let ?s1 = "s\<lparr>heap := draw_on cp ?c (heap s), rng := (\<lambda>n. rng s (Suc (Suc (Suc n))))\<rparr>"
    have cp1: "cp < length (heap ?s1)"
      using Cons.prems by simp
    have rng3: "(\<lambda>n. rng s (Suc (Suc (Suc (n + 3 * k))))) = (\<lambda>n. rng s (n + 3 * Suc k))" for k
      by (simp add: fun_eq_iff numeral_3_eq_3)
    have at: "detection_at labels_map classes scores boxes i =
        (fst (detection_at labels_map classes scores boxes i),
         snd (detection_at labels_map classes scores boxes i))"
      by simp
    have calls: "rendered_calls gts im (detection_at labels_map classes scores boxes i # ds) g =
        detection_box_calls gts im (fst (detection_at labels_map classes scores boxes i))
          (Some (snd (detection_at labels_map classes scores boxes i))) (box_color_of g)
        @ rendered_calls gts im ds (\<lambda>n. g (Suc (Suc (Suc n))))" for im ds g
      by (subst at) (simp only: rendered_calls.simps)
    show ?thesis
      unfolding visualize_loop_next [OF None Cons.prems] Cons.IH [OF cp1]
      using Cons.prems None
      by (simp add: draw_on_draw_on nth_draw_on_same calls rng3)
  qed
qed

lemma visualize_loop_frame:
  assumes "cp < length (heap s)"
    and "visualize_loop gts labels_map classes scores boxes cp idxs s = (res, s')"
  shows "\<exists>cs. heap s' = draw_on cp cs (heap s) \<and> shown s' = shown s"
  using assms
proof (induction idxs arbitrary: s)
  case Nil
  then show ?case
    by (auto simp: draw_on_Nil intro: exI [of _ "[]"])
next
  case (Cons i idxs)
  consider (err) "s' = s"
    | (step) b l s1 where "add_detection_box gts b cp (Some l) s = (cp, s1)"
        and "visualize_loop gts labels_map classes scores boxes cp idxs s1 = (res, s')"
    using Cons.prems
    by (auto simp: Let_def add_detection_box_eq split: sum.splits prod.splits)
  then show ?case
  proof cases
    case err
    then show ?thesis
      using Cons.prems(1) by (auto simp: draw_on_Nil intro: exI [of _ "[]"])
  next
    case step
    let ?cs = "detection_box_calls gts (heap s ! cp) b (Some l) (box_color_of (rng s))"
    have s1: "heap s1 = draw_on cp ?cs (heap s)" and sh: "shown s1 = shown s"
      using Cons.prems(1) step(1) by (auto simp: add_detection_box_eq)
    have "cp < length (heap s1)"
      using Cons.prems(1) by (simp add: s1)
    from Cons.IH [OF this step(2)] obtain cs where
      "heap s' = draw_on cp cs (draw_on cp ?cs (heap s))" and "shown s' = shown s"
      by (auto simp: s1 sh)
    then show ?thesis
      using Cons.prems(1) by (auto simp: draw_on_draw_on)
  qed
qed

lemma draw_on_fresh: "draw_on (length h) cs (h @ [x]) = h @ [x\<lparr>drawn := drawn x @ cs\<rparr>]"
  by (simp add: draw_on_def)

text \<open>
  Claim C10.  Whatever the outcome of \<^verbatim>\<open>visualize_inference_result\<close> (a display or an
  exception), the caller's image and every array that existed before the call are
  unchanged; when the call gets past reading \<^verbatim>\<open>num_detections[0]\<close>, the one array added to
  the store is the copy of the image, with the boxes drawn on it.
\<close>

theorem visualize_inference_result_keeps_input:
  assumes "img < length (heap s)"
    and "visualize_inference_result gts ir img labels_map detections_limit s = (res, s')"
  shows "heap s' ! img = heap s ! img \<and>
         take (length (heap s)) (heap s') = heap s \<and>
         (num_detections ir \<noteq> [] \<longrightarrow>
            (\<exists>cs. heap s' = heap s @ [(heap s ! img)\<lparr>drawn := drawn (heap s ! img) @ cs\<rparr>]))"
proof (cases "num_detections ir = []")
  case True
  with assms(2) have "s' = s"
    by (simp add: visualize_inference_result_def index1_def)
  with True show ?thesis by simp
next
  case False
  obtain h w c where hwc: "shape (heap s ! img) = (h, w, c)"
    by (cases "shape (heap s ! img)")
  let ?s1 = "s\<lparr>heap := heap s @ [heap s ! img]\<rparr>"
  let ?cp = "length (heap s)"
  obtain idxs r s2 where
    loop: "visualize_loop gts labels_map (detection_classes ir) (detection_scores ir)
             (map (map (normalize_box h w)) (detection_boxes ir)) ?cp idxs ?s1 = (r, s2)"
    and s': "heap s' = heap s2"
    using assms(2) False
    by (auto simp: visualize_inference_result_def index1_def hwc np_copy_def alloc_def Let_def
          plt_imshow_def split: prod.splits sum.splits)
  have "?cp < length (heap ?s1)" by simp
  from visualize_loop_frame [OF this loop] obtain cs where
    "heap s2 = draw_on ?cp cs (heap s @ [heap s ! img])"
    by auto
  then have "heap s' = heap s @ [(heap s ! img)\<lparr>drawn := drawn (heap s ! img) @ cs\<rparr>]"
    by (simp add: s' draw_on_fresh)
  with assms(1) show ?thesis
    by (auto simp: nth_append)
qed

lemma detection_error_map_boxes:
  "detection_error labels_map classes scores (map (map f) boxes) i =
     detection_error labels_map classes scores boxes i"
  by (cases boxes) (simp_all add: detection_error_def)

lemma find_first_failure:
  "find (\<lambda>x. \<not> P x) xs =
     (if length (takeWhile P xs) = length xs then None else Some (xs ! length (takeWhile P xs)))"
proof (induction xs)
  case Nil
  then show ?case by simp
next
  case (Cons x xs)
  have "length (takeWhile P xs) \<le> length xs"
    by (rule length_takeWhile_le)
  with Cons show ?case
    by auto
qed

lemma length_takeWhile_upt: "length (takeWhile P [0..<n]) \<le> n"
  using length_takeWhile_le [of P "[0..<n]"] by simp

lemma detection_at_normalized:
  assumes "detection_error labels_map (detection_classes ir) (detection_scores ir)
             (detection_boxes ir) i = None"
  shows "detection_at labels_map (detection_classes ir) (detection_scores ir)
           (map (map (normalize_box h w)) (detection_boxes ir)) i =
         rendered_detection h w labels_map ir i"
proof -
  from assms have "detection_boxes ir \<noteq> []" and "i < length (detection_boxes ir ! 0)"
    by (auto simp: detection_error_def split: if_splits)
  then show ?thesis
    by (cases "detection_boxes ir ! 0 ! i")
       (simp add: detection_at_def rendered_detection_def normalize_box_def nth_map)
qed

lemma visualize_inference_result_run:
  assumes "img < length (heap s)"
    and "shape (heap s ! img) = (h, w, c)"
    and "num_detections ir \<noteq> []"
    and "limit = nat (py_int (case detections_limit of
                                Some l \<Rightarrow> min (real_of_int l) (num_detections ir ! 0)
                              | None \<Rightarrow> num_detections ir ! 0))"
    and "err = detection_error labels_map (detection_classes ir) (detection_scores ir)
                 (detection_boxes ir)"
    and "rendered = takeWhile (\<lambda>i. err i = None) [0..<limit]"
    and "annotated = (heap s ! img)\<lparr>drawn := drawn (heap s ! img)
           @ rendered_calls gts (heap s ! img)
               (map (rendered_detection h w labels_map ir) rendered) (rng s)\<rparr>"
  shows "visualize_inference_result gts ir img labels_map detections_limit s =
           (if length rendered = limit then
              (Inr (), s\<lparr>heap := heap s @ [annotated],
                         rng := (\<lambda>n. rng s (n + 3 * limit)),
                         shown := shown s @ [annotated]\<rparr>)
            else
              (Inl (the (err (length rendered))),
               s\<lparr>heap := heap s @ [annotated],
                  rng := (\<lambda>n. rng s (n + 3 * length rendered))\<rparr>))"
proof -
  let ?s1 = "s\<lparr>heap := heap s @ [heap s ! img]\<rparr>"
  let ?cp = "length (heap s)"
  let ?boxes = "map (map (normalize_box h w)) (detection_boxes ir)"
  have cp: "?cp < length (heap ?s1)" by simp
  have same: "map (detection_at labels_map (detection_classes ir) (detection_scores ir) ?boxes)
      rendered = map (rendered_detection h w labels_map ir) rendered"
    unfolding assms(6)
    by (rule map_cong [OF refl], drule set_takeWhileD)
       (simp add: assms(5) detection_at_normalized)
  have first: "find (\<lambda>i. err i \<noteq> None) [0..<limit] =
      (if length rendered = limit then None else Some (length rendered))"
    using find_first_failure [of "\<lambda>i. err i = None" "[0..<limit]"]
      length_takeWhile_upt [of "\<lambda>i. err i = None" limit]
    by (simp add: assms(6))
  note loop = visualize_loop_run [OF cp, of gts labels_map "detection_classes ir"
      "detection_scores ir" ?boxes "[0..<limit]"]
  have loop': "visualize_loop gts labels_map (detection_classes ir) (detection_scores ir) ?boxes
      ?cp [0..<limit] ?s1 =
        (if length rendered = limit then Inr () else Inl (the (err (length rendered))),
         s\<lparr>heap := heap s @ [annotated], rng := (\<lambda>n. rng s (n + 3 * length rendered))\<rparr>)"
    by (simp only: loop detection_error_map_boxes assms(5) [symmetric] assms(6) [symmetric]
          first same)
       (simp add: draw_on_fresh assms(7))
  show ?thesis
    using assms(3)
    by (simp add: visualize_inference_result_def index1_def assms(2) np_copy_def alloc_def
          assms(4) [symmetric] loop' plt_imshow_def)
qed

text \<open>
  Claim C6, as the code has it.  \<^verbatim>\<open>visualize_inference_result\<close> has no confidence threshold
  and filters nothing.  It reads \<open>num_detections[0]\<close> (an empty tensor raises
  \<^verbatim>\<open>IndexError\<close> before anything is done), takes for \<open>limit\<close> the truncation of
  \<open>min(N, num_detections[0])\<close>, or of \<open>num_detections[0]\<close> when no \<open>N\<close> is given, copies the
  image, and goes through the indices below \<open>limit\<close> in batch order.  At each index it reads
  the class, looks the label up, reads the score and the box, and calls
  \<^verbatim>\<open>add_detection_box\<close> on the copy with the box scaled by the height and the width of the
  image (\<open>ymin\<close> and \<open>ymax\<close> by the height, \<open>xmin\<close> and \<open>xmax\<close> by the width) and the label
  \<open>name score\<close>.  When every index below \<open>limit\<close> is rendered, the annotated copy is handed
  to \<^verbatim>\<open>plt.imshow\<close> and the function returns \<^verbatim>\<open>None\<close>.  At the first index where a tensor
  has no such row (\<^verbatim>\<open>IndexError\<close>) or the label map has no such class (\<^verbatim>\<open>KeyError\<close>) the
  exception is raised: the earlier detections are drawn on the copy and nothing is shown.
\<close>

theorem visualize_inference_result_steps:
  assumes "img < length (heap s)"
    and "shape (heap s ! img) = (h, w, c)"
    and "limit = nat (py_int (case detections_limit of
                                Some l \<Rightarrow> min (real_of_int l) (num_detections ir ! 0)
                              | None \<Rightarrow> num_detections ir ! 0))"
    and "err = detection_error labels_map (detection_classes ir) (detection_scores ir)
                 (detection_boxes ir)"
    and "rendered = takeWhile (\<lambda>i. err i = None) [0..<limit]"
    and "annotated = (heap s ! img)\<lparr>drawn := drawn (heap s ! img)
           @ rendered_calls gts (heap s ! img)
               (map (rendered_detection h w labels_map ir) rendered) (rng s)\<rparr>"
  shows "visualize_inference_result gts ir img labels_map detections_limit s =
           (if num_detections ir = [] then (Inl IndexError, s)
            else if length rendered = limit then
              (Inr (), s\<lparr>heap := heap s @ [annotated],
                         rng := (\<lambda>n. rng s (n + 3 * limit)),
                         shown := shown s @ [annotated]\<rparr>)
            else
              (Inl (the (err (length rendered))),
               s\<lparr>heap := heap s @ [annotated],
                  rng := (\<lambda>n. rng s (n + 3 * length rendered))\<rparr>)) \<and>
         (length rendered \<noteq> limit \<longrightarrow> err (length rendered) \<noteq> None)"
proof -
  have "err (length rendered) \<noteq> None" if "length rendered \<noteq> limit"
  proof -
    have "length rendered < length [0..<limit]"
      using that length_takeWhile_upt [of "\<lambda>i. err i = None" limit] by (simp add: assms(5))
    then have "\<not> err ([0..<limit] ! length rendered) = None"
      unfolding assms(5) by (rule nth_length_takeWhile)
    with \<open>length rendered < length [0..<limit]\<close> show ?thesis
      by simp
  qed
  moreover have "visualize_inference_result gts ir img labels_map detections_limit s =
      (Inl IndexError, s)" if "num_detections ir = []"
    using that by (simp add: visualize_inference_result_def index1_def)
  moreover have "visualize_inference_result gts ir img labels_map detections_limit s =
      (if length rendered = limit then
         (Inr (), s\<lparr>heap := heap s @ [annotated],
                    rng := (\<lambda>n. rng s (n + 3 * limit)),
                    shown := shown s @ [annotated]\<rparr>)
       else
         (Inl (the (err (length rendered))),
          s\<lparr>heap := heap s @ [annotated],
             rng := (\<lambda>n. rng s (n + 3 * length rendered))\<rparr>))" if "num_detections ir \<noteq> []"
    by (rule visualize_inference_result_run [OF assms(1,2) that assms(3-6)])
  ultimately show ?thesis
    by (cases "num_detections ir = []") simp_all
qed

lemma label_map_cat_dog:
  "coco_labels_map cat_dog_file k = (if k = 1 then Some ''cat'' else if k = 2 then Some ''dog'' else None)"
  by (simp add: coco_labels_map_def cat_dog_labels dict_py_enumerate)

text \<open>
  The input image of the example is unchanged after the call.
\<close>

theorem visualize_inference_result_keeps_input_witness:
  "0 < length (heap (example_state (\<lambda>_. 7))) \<and>
   heap (snd (visualize_inference_result example_text_size example_result 0
                (coco_labels_map cat_dog_file) None (example_state (\<lambda>_. 7)))) ! 0
     = example_image"
proof -
  let ?run = "visualize_inference_result example_text_size example_result 0
                (coco_labels_map cat_dog_file) None (example_state (\<lambda>_. 7))"
  have v: "0 < length (heap (example_state (\<lambda>_. 7)))"
    by (simp add: example_state_def)
  have e: "?run = (fst ?run, snd ?run)"
    by simp
  from visualize_inference_result_keeps_input [OF v e] show ?thesis
    by (simp add: example_state_def)
qed

text \<open>
  On the image of height 100 and width 200: with a limit of 1 the first detection is
  rendered and shown; with the class 0 in the second row the first detection is drawn on
  the copy, \<^verbatim>\<open>KeyError\<close> is raised and nothing is shown.
\<close>

theorem visualize_inference_result_steps_witness:
  "fst (visualize_inference_result example_text_size example_result 0
          (coco_labels_map cat_dog_file) (Some 1) example_wide_state) = Inr () \<and>
   map drawn (shown (snd (visualize_inference_result example_text_size example_result 0
          (coco_labels_map cat_dog_file) (Some 1) example_wide_state))) =
     [[Rectangle (20, 10) (100, 50) (7, 7, 7) 1 LINE_AA,
       Rectangle (20, 10) (100, -3) (7, 7, 7) (-1) LINE_AA,
       PutText ''cat 0.90'' (20, 7) 0 (1 / 3) (255, 255, 255) 1 LINE_AA]] \<and>
   fst (visualize_inference_result example_text_size example_result_unknown_class 0
          (coco_labels_map cat_dog_file) None example_wide_state) = Inl KeyError \<and>
   shown (snd (visualize_inference_result example_text_size example_result_unknown_class 0
          (coco_labels_map cat_dog_file) None example_wide_state)) = [] \<and>
   map drawn (heap (snd (visualize_inference_result example_text_size
          example_result_unknown_class 0 (coco_labels_map cat_dog_file) None
          example_wide_state))) =
     [[],
      [Rectangle (20, 10) (100, 50) (7, 7, 7) 1 LINE_AA,
       Rectangle (20, 10) (100, -3) (7, 7, 7) (-1) LINE_AA,
       PutText ''cat 0.90'' (20, 7) 0 (1 / 3) (255, 255, 255) 1 LINE_AA]]"
proof -
  have v: "0 < length (heap example_wide_state)"
    and sh: "shape (heap example_wide_state ! 0) = (100, 200, 3)"
    by (simp_all add: example_wide_state_def)
  note run1 = visualize_inference_result_steps [OF v sh refl refl refl refl,
      of example_text_size example_result "coco_labels_map cat_dog_file" "Some 1",
      THEN conjunct1]
  note run2 = visualize_inference_result_steps [OF v sh refl refl refl refl,
      of example_text_size example_result_unknown_class "coco_labels_map cat_dog_file" None,
      THEN conjunct1]
  show ?thesis
    unfolding run1 run2
    by (simp add: example_wide_state_def example_result_def example_result_unknown_class_def
          py_int_def upt_rec detection_error_def rendered_detection_def detection_box_calls_def
          box_color_of_def line_thickness_of_def py_round_def truthy_def example_text_size_def
          label_map_cat_dog format_2f_def digit_def)
qed

text \<open>
  Claim C6, as stated, fails: no detection filter runs first.  The second detection of the
  example has score 0, which exceeds no threshold of the range from 0 to 1, and it is
  rendered with its label.
\<close>

theorem visualize_inference_result_no_filter_counterexample:
  "detection_scores example_result = [[0.9, 0]] \<and>
   map drawn (shown (snd (visualize_inference_result example_text_size example_result 0
          (coco_labels_map cat_dog_file) None (example_state (\<lambda>_. 7))))) =
     [[Rectangle (10, 10) (50, 50) (7, 7, 7) 1 LINE_AA,
       Rectangle (10, 10) (90, -3) (7, 7, 7) (-1) LINE_AA,
       PutText ''cat 0.90'' (10, 7) 0 (1 / 3) (255, 255, 255) 1 LINE_AA,
       Rectangle (30, 20) (80, 60) (7, 7, 7) 1 LINE_AA,
       Rectangle (30, 20) (110, 7) (7, 7, 7) (-1) LINE_AA,
       PutText ''dog 0.00'' (30, 17) 0 (1 / 3) (255, 255, 255) 1 LINE_AA]]"
  by (simp add: visualize_inference_result_def example_result_def index1_def index2_def
        example_state_def example_image_def np_copy_def alloc_def py_int_def upt_rec
        getitem_def label_map_cat_dog add_detection_box_eq draw_on_def normalize_box_def
        detection_box_calls_def box_color_of_def line_thickness_of_def py_round_def truthy_def
        example_text_size_def format_2f_def digit_def plt_imshow_def)

section \<open>Rendering and the random draws\<close>

lemma rendered_calls_same_draws:
  assumes "\<forall>n. int (g1 n) mod 256 = int (g2 n) mod 256"
  shows "rendered_calls gts im ds g1 = rendered_calls gts im ds g2"
  using assms
proof (induction ds arbitrary: g1 g2)
  case Nil
  then show ?case by simp
next
  case (Cons d ds)
  obtain b l where d: "d = (b, l)"
    by (cases d)
  have "box_color_of g1 = box_color_of g2"
    using Cons.prems by (simp add: box_color_of_def)
  moreover have "rendered_calls gts im ds (\<lambda>n. g1 (Suc (Suc (Suc n)))) =
      rendered_calls gts im ds (\<lambda>n. g2 (Suc (Suc (Suc n))))"
    using Cons.prems by (intro Cons.IH) simp
  ultimately show ?case
    by (simp add: d)
qed

text \<open>
  Claim C3, as the code has it.  The box colour is drawn from the random generator.  Two
  runs of \<^verbatim>\<open>add_detection_box\<close> on the same image contents, the same box and the same
  label, in which \<^verbatim>\<open>random.randint(0, 255)\<close> returns the same three values, leave identical
  annotated buffers.  Two runs of \<^verbatim>\<open>visualize_inference_result\<close> on the same image contents,
  inference result, label map and limit, in which \<^verbatim>\<open>random.randint(0, 255)\<close> returns the
  same values, have the same outcome, allocate identical arrays and show identical
  pictures.
\<close>

theorem rendering_same_draws:
  assumes "img1 < length (heap s1)" and "img2 < length (heap s2)"
    and "heap s1 ! img1 = heap s2 ! img2"
  shows "(box_color_of (rng s1) = box_color_of (rng s2) \<longrightarrow>
            heap (snd (add_detection_box gts b img1 label s1)) ! img1
              = heap (snd (add_detection_box gts b img2 label s2)) ! img2) \<and>
         ((\<forall>n. int (rng s1 n) mod 256 = int (rng s2 n) mod 256) \<longrightarrow>
            fst (visualize_inference_result gts ir img1 labels_map detections_limit s1)
              = fst (visualize_inference_result gts ir img2 labels_map detections_limit s2) \<and>
            drop (length (heap s1))
                (heap (snd (visualize_inference_result gts ir img1 labels_map detections_limit s1)))
              = drop (length (heap s2))
                  (heap (snd (visualize_inference_result gts ir img2 labels_map detections_limit s2))) \<and>
            drop (length (shown s1))
                (shown (snd (visualize_inference_result gts ir img1 labels_map detections_limit s1)))
              = drop (length (shown s2))
                  (shown (snd (visualize_inference_result gts ir img2 labels_map detections_limit s2))))"
proof (intro conjI impI)
  assume "box_color_of (rng s1) = box_color_of (rng s2)"
  with assms show "heap (snd (add_detection_box gts b img1 label s1)) ! img1
      = heap (snd (add_detection_box gts b img2 label s2)) ! img2"
    by (simp add: add_detection_box_eq nth_draw_on_same)
next
  assume draws: "\<forall>n. int (rng s1 n) mod 256 = int (rng s2 n) mod 256"
  obtain h w c where sh1: "shape (heap s1 ! img1) = (h, w, c)"
    by (cases "shape (heap s1 ! img1)")
  then have sh2: "shape (heap s2 ! img2) = (h, w, c)"
    by (simp add: assms(3))
  let ?V1 = "visualize_inference_result gts ir img1 labels_map detections_limit s1"
  let ?V2 = "visualize_inference_result gts ir img2 labels_map detections_limit s2"
  have "fst ?V1 = fst ?V2 \<and>
      drop (length (heap s1)) (heap (snd ?V1)) = drop (length (heap s2)) (heap (snd ?V2)) \<and>
      drop (length (shown s1)) (shown (snd ?V1)) = drop (length (shown s2)) (shown (snd ?V2))"
  proof (cases "num_detections ir = []")
    case True
    then show ?thesis
      by (simp add: visualize_inference_result_def index1_def)
  next
    case False
    note run1 = visualize_inference_result_run [OF assms(1) sh1 False refl refl refl refl,
        of gts labels_map detections_limit]
    note run2 = visualize_inference_result_run [OF assms(2) sh2 False refl refl refl refl,
        of gts labels_map detections_limit]
    show ?thesis
      unfolding run1 run2
      by (simp add: assms(3) rendered_calls_same_draws [OF draws])
  qed
  then show "fst ?V1 = fst ?V2"
    and "drop (length (heap s1)) (heap (snd ?V1)) = drop (length (heap s2)) (heap (snd ?V2))"
    and "drop (length (shown s1)) (shown (snd ?V1)) = drop (length (shown s2)) (shown (snd ?V2))"
    by simp_all
qed

text \<open>
  Two generators that differ and make \<^verbatim>\<open>random.randint(0, 255)\<close> return the same values.
\<close>

theorem rendering_same_draws_witness:
  "heap (snd (add_detection_box example_text_size (10, 10, 50, 50) 0 (Some ''cat'')
                (example_state (\<lambda>_. 7)))) ! 0
     = heap (snd (add_detection_box example_text_size (10, 10, 50, 50) 0 (Some ''cat'')
                (example_state (\<lambda>n. 7 + 256 * n)))) ! 0 \<and>
   shown (snd (visualize_inference_result example_text_size example_result 0
                 (coco_labels_map cat_dog_file) None (example_state (\<lambda>_. 7))))
     = shown (snd (visualize_inference_result example_text_size example_result 0
                 (coco_labels_map cat_dog_file) None (example_state (\<lambda>n. 7 + 256 * n))))"
proof -
  have 1: "0 < length (heap (example_state (\<lambda>_. 7)))"
    and 2: "0 < length (heap (example_state (\<lambda>n. 7 + 256 * n)))"
    and 3: "heap (example_state (\<lambda>_. 7)) ! 0 = heap (example_state (\<lambda>n. 7 + 256 * n)) ! 0"
    and 4: "box_color_of (rng (example_state (\<lambda>_. 7)))
              = box_color_of (rng (example_state (\<lambda>n. 7 + 256 * n)))"
    and 5: "\<forall>n. int (rng (example_state (\<lambda>_. 7)) n) mod 256
              = int (rng (example_state (\<lambda>n. 7 + 256 * n)) n) mod 256"
    and 6: "shown (example_state (\<lambda>_. 7)) = []" "shown (example_state (\<lambda>n. 7 + 256 * n)) = []"
    by (simp_all add: example_state_def box_color_of_def)
  from rendering_same_draws [OF 1 2 3, of example_text_size "(10, 10, 50, 50)" "Some ''cat''"
      example_result "coco_labels_map cat_dog_file" None] 4 5
  show ?thesis
    by (simp add: 6)
qed

text \<open>
  Claim C3, as stated, fails: on the same store, box and label, a generator that draws 0
  and one that draws 255 leave different buffers.  The box and its label lie inside the
  100 by 100 image, so the outline is painted, in black by the one run and in white by the
  other.
\<close>

theorem add_detection_box_deterministic_counterexample:
  "heap (example_state (\<lambda>_. 0)) = heap (example_state (\<lambda>_. 255)) \<and>
   heap (snd (add_detection_box example_text_size (10, 10, 50, 50) 0 (Some ''cat'')
                (example_state (\<lambda>_. 0)))) ! 0
     \<noteq> heap (snd (add_detection_box example_text_size (10, 10, 50, 50) 0 (Some ''cat'')
                (example_state (\<lambda>_. 255)))) ! 0"
  by (simp add: add_detection_box_eq nth_draw_on_same example_state_def detection_box_calls_def
        box_color_of_def example_image_def truthy_def)

section \<open>Properties of the visualization of the text-detection notebook\<close>

lemma py_int_max_10: "py_int (max v 10) = max (py_int v) 10"
proof (cases "10 \<le> v")
  case True
  then have "py_int v = \<lfloor>v\<rfloor>" and "10 \<le> \<lfloor>v\<rfloor>" and "max v 10 = v"
    by (simp_all add: py_int_def le_floor_iff)
  then show ?thesis
    by simp
next
  case False
  then have "\<lfloor>v\<rfloor> < 10" and "v < 0 \<Longrightarrow> \<lceil>v\<rceil> \<le> 0"
    by (simp_all add: floor_less_iff ceiling_le_iff)
  with False show ?thesis
    by (auto simp: py_int_def max_def)
qed

lemma rescale_corners_4:
  "rescale_corners rnd ratio_x ratio_y [x_min, y_min, x_max, y_max] =
     [py_int (rnd (x_min * ratio_x)), max (py_int (rnd (y_min * ratio_y))) 10,
      py_int (rnd (x_max * ratio_x)), max (py_int (rnd (y_max * ratio_y))) 10]"
  by (simp add: rescale_corners_def py_int_max_10)

lemma length_5: "length xs = 5 \<Longrightarrow> \<exists>a b c d e. xs = [a, b, c, d, e]"
  by (auto simp: eval_nat_numeral length_Suc_conv)

lemma convert_loop_step:
  assumes "rgb < length (heap s)" and "length box = 5"
  shows "convert_loop rnd ratio_x ratio_y threshold conf_labels rgb (box # boxes) s =
           (if threshold < last box then
              convert_loop rnd ratio_x ratio_y threshold conf_labels rgb boxes
                (s\<lparr>heap := draw_on rgb (retained_box_calls rnd ratio_x ratio_y conf_labels box) (heap s)\<rparr>)
            else convert_loop rnd ratio_x ratio_y threshold conf_labels rgb boxes s)"
proof -
  from length_5 [OF assms(2)] obtain a b c d e where box: "box = [a, b, c, d, e]"
    by blast
  show ?thesis
    using assms(1)
    by (simp add: box rescale_corners_4 retained_box_calls_def cv2_rectangle_def cv2_putText_def
          cv2_call_def draw_on_def Let_def)
qed

lemma convert_loop_ok:
  assumes "rgb < length (heap s)" and "\<forall>box\<in>set boxes. length box = 5"
  shows "convert_loop rnd ratio_x ratio_y threshold conf_labels rgb boxes s =
           (Inr rgb, s\<lparr>heap := draw_on rgb
                        (concat (map (retained_box_calls rnd ratio_x ratio_y conf_labels)
                                   (filter (\<lambda>box. threshold < last box) boxes)))
                        (heap s)\<rparr>)"
  using assms
proof (induction boxes arbitrary: s)
  case Nil
  then show ?case by (simp add: draw_on_Nil)
next
  case (Cons box boxes)
  let ?s1 = "s\<lparr>heap := draw_on rgb (retained_box_calls rnd ratio_x ratio_y conf_labels box) (heap s)\<rparr>"
  have len: "length box = 5" and rest: "\<forall>box\<in>set boxes. length box = 5"
    using Cons.prems(2) by simp_all
  have rgb1: "rgb < length (heap ?s1)"
    using Cons.prems(1) by simp
  show ?case
    using Cons.prems(1)
    by (simp add: convert_loop_step [OF Cons.prems(1) len] Cons.IH [OF rgb1 rest]
          Cons.IH [OF Cons.prems(1) rest] draw_on_draw_on del: convert_loop.simps)
qed

lemma convert_result_to_image_ok:
  assumes "bgr < length (heap s)"
    and "shape (heap s ! bgr) = (real_y, real_x, c1)"
    and "shape (heap s ! resized) = (resized_y, resized_x, c2)"
    and "resized_x \<noteq> 0" and "resized_y \<noteq> 0"
    and "\<forall>box\<in>set boxes. length box = 5"
  shows "convert_result_to_image rnd bgr resized boxes threshold conf_labels s =
           (Inr (length (heap s)),
            s\<lparr>heap := heap s @ [(heap s ! bgr)\<lparr>drawn := drawn (heap s ! bgr) @ CvtColor_BGR2RGB
                # concat (map (retained_box_calls rnd (rnd (real real_x / real resized_x))
                                 (rnd (real real_y / real resized_y)) conf_labels)
                            (filter (\<lambda>box. threshold < last box) boxes))\<rparr>]\<rparr>)"
proof -
  let ?s1 = "s\<lparr>heap := heap s @ [(heap s ! bgr)\<lparr>drawn := drawn (heap s ! bgr) @ [CvtColor_BGR2RGB]\<rparr>]\<rparr>"
  have cp: "length (heap s) < length (heap ?s1)" by simp
  show ?thesis
    using assms(4,5)
    by (simp add: convert_result_to_image_def assms(2,3) cv2_cvtColor_BGR2RGB_def alloc_def
          convert_loop_ok [OF cp assms(6)] draw_on_fresh)
qed

lemma rectangles_of_retained_box:
  "length box = 5 \<Longrightarrow>
     length (filter is_rectangle (retained_box_calls rnd ratio_x ratio_y conf_labels box)) = 1"
  by (auto dest!: length_5 simp: retained_box_calls_def)

lemma rectangles_of_retained_boxes:
  "\<forall>box\<in>set kept. length box = 5 \<Longrightarrow>
     length (filter is_rectangle (concat (map (retained_box_calls rnd ratio_x ratio_y conf_labels) kept)))
       = length kept"
  by (induction kept) (simp_all add: rectangles_of_retained_box)

lemma filter_stricter:
  assumes "\<And>x. Q x \<Longrightarrow> P x"
  shows "subseq (filter Q xs) (filter P xs)"
proof -
  have "filter Q xs = filter Q (filter P xs)"
    using assms by (auto intro: filter_cong)
  then show ?thesis
    by (metis subseq_filter_left)
qed

text \<open>
  Claim C4.  On a batch of rows of five entries, \<^verbatim>\<open>convert_result_to_image\<close> draws, after
  the colour conversion, the calls of exactly the rows whose confidence strictly exceeds
  the threshold, in batch order.  For thresholds \<open>T1 \<le> T2\<close> the rows kept at \<open>T2\<close> are a
  subsequence of the rows kept at \<open>T1\<close>, which are a subsequence of the batch, and the
  number of rectangles drawn at \<open>T2\<close> is at most the number drawn at \<open>T1\<close>.
\<close>

theorem threshold_monotone:
  assumes "bgr < length (heap s)"
    and "shape (heap s ! bgr) = (real_y, real_x, c1)"
    and "shape (heap s ! resized) = (resized_y, resized_x, c2)"
    and "resized_x \<noteq> 0" and "resized_y \<noteq> 0"
    and "\<forall>box\<in>set boxes. length box = 5"
    and "T1 \<le> T2"
    and "kept1 = filter (\<lambda>box. T1 < last box) boxes"
    and "kept2 = filter (\<lambda>box. T2 < last box) boxes"
    and "calls = retained_box_calls rnd (rnd (real real_x / real resized_x)) (rnd (real real_y / real resized_y))
                   conf_labels"
  shows "\<exists>r1 s1 r2 s2.
           convert_result_to_image rnd bgr resized boxes T1 conf_labels s = (Inr r1, s1) \<and>
           convert_result_to_image rnd bgr resized boxes T2 conf_labels s = (Inr r2, s2) \<and>
           drawn (heap s1 ! r1) = drawn (heap s ! bgr) @ CvtColor_BGR2RGB # concat (map calls kept1) \<and>
           drawn (heap s2 ! r2) = drawn (heap s ! bgr) @ CvtColor_BGR2RGB # concat (map calls kept2) \<and>
           count_rectangles (heap s1 ! r1) = count_rectangles (heap s ! bgr) + length kept1 \<and>
           count_rectangles (heap s2 ! r2) = count_rectangles (heap s ! bgr) + length kept2 \<and>
           length kept2 \<le> length kept1 \<and> subseq kept2 kept1 \<and> subseq kept1 boxes"
proof -
  have sub21: "subseq kept2 kept1"
    unfolding assms(8,9) using assms(7) by (intro filter_stricter) simp
  then have len: "length kept2 \<le> length kept1"
    by (rule list_emb_length)
  have sub1: "subseq kept1 boxes"
    unfolding assms(8) by (rule subseq_filter_left)
  have wf1: "\<forall>box\<in>set kept1. length box = 5" and wf2: "\<forall>box\<in>set kept2. length box = 5"
    using assms(6) by (simp_all add: assms(8,9))
  note run = convert_result_to_image_ok [OF assms(1-6)]
  show ?thesis
    using sub21 len sub1
    by (simp add: run count_rectangles_def assms(10)
          rectangles_of_retained_boxes [OF wf1] rectangles_of_retained_boxes [OF wf2]
          assms(8) [symmetric] assms(9) [symmetric])
qed

text \<open>
  Claim C2, as the code has it.  The cell \<^verbatim>\<open>boxes[~np.all(boxes == 0, axis=1)]\<close> tests the
  whole row, the confidence included.  After it, \<^verbatim>\<open>convert_result_to_image\<close> renders
  exactly the rows whose confidence exceeds the threshold and whose five entries are not
  all zero; a row of five zeros is never rendered, whatever the threshold, also a negative
  one.
\<close>

theorem zero_only_rows_removed:
  assumes "bgr < length (heap s)"
    and "shape (heap s ! bgr) = (real_y, real_x, c1)"
    and "shape (heap s ! resized) = (resized_y, resized_x, c2)"
    and "resized_x \<noteq> 0" and "resized_y \<noteq> 0"
    and "\<forall>box\<in>set raw. length box = 5"
    and "kept = filter (\<lambda>box. threshold < last box \<and> \<not> list_all (\<lambda>v. v = 0) box) raw"
  shows "convert_result_to_image rnd bgr resized (remove_zero_only_boxes raw) threshold conf_labels s =
           (Inr (length (heap s)),
            s\<lparr>heap := heap s @ [(heap s ! bgr)\<lparr>drawn := drawn (heap s ! bgr) @ CvtColor_BGR2RGB
                # concat (map (retained_box_calls rnd (rnd (real real_x / real resized_x))
                                 (rnd (real real_y / real resized_y)) conf_labels) kept)\<rparr>]\<rparr>) \<and>
         [0, 0, 0, 0, 0] \<notin> set kept"
proof -
  have wf: "\<forall>box\<in>set (remove_zero_only_boxes raw). length box = 5"
    using assms(6) by (simp add: remove_zero_only_boxes_def)
  have "filter (\<lambda>box. threshold < last box) (remove_zero_only_boxes raw) = kept"
    by (auto simp: remove_zero_only_boxes_def assms(7) intro: filter_cong)
  then show ?thesis
    by (simp add: convert_result_to_image_ok [OF assms(1-5) wf] assms(7))
qed

text \<open>
  Claim C8.  At the threshold 0.3, for three rows of confidences 0.9, 0.4 and 0.1, with any
  coordinates, and one row of zeros at any place among them, exactly the rows of
  confidences 0.9 and 0.4 are kept and rendered, in this order.
\<close>

theorem scenario_three_rows_and_zero_row:
  assumes "bgr < length (heap s)"
    and "shape (heap s ! bgr) = (real_y, real_x, c1)"
    and "shape (heap s ! resized) = (resized_y, resized_x, c2)"
    and "resized_x \<noteq> 0" and "resized_y \<noteq> 0"
    and "row1 = [xa1, ya1, xb1, yb1, 0.9]"
    and "row2 = [xa2, ya2, xb2, yb2, 0.4]"
    and "row3 = [xa3, ya3, xb3, yb3, 0.1]"
    and "before @ after = [row1, row2, row3]"
    and "raw = before @ [[0, 0, 0, 0, 0]] @ after"
  shows "filter (\<lambda>box. 0.3 < last box) (remove_zero_only_boxes raw) = [row1, row2] \<and>
         convert_result_to_image rnd bgr resized (remove_zero_only_boxes raw) 0.3 conf_labels s =
           (Inr (length (heap s)),
            s\<lparr>heap := heap s @ [(heap s ! bgr)\<lparr>drawn := drawn (heap s ! bgr) @ CvtColor_BGR2RGB
                # retained_box_calls rnd (rnd (real real_x / real resized_x))
                    (rnd (real real_y / real resized_y)) conf_labels row1
                @ retained_box_calls rnd (rnd (real real_x / real resized_x))
                    (rnd (real real_y / real resized_y)) conf_labels row2\<rparr>]\<rparr>)"
proof -
  have "remove_zero_only_boxes raw = remove_zero_only_boxes (before @ after)"
    by (simp add: remove_zero_only_boxes_def assms(10))
  then have rem: "remove_zero_only_boxes raw = [row1, row2, row3]"
    by (simp add: assms(6-9) remove_zero_only_boxes_def)
  have wf: "\<forall>box\<in>set (remove_zero_only_boxes raw). length box = 5"
    by (simp add: rem assms(6-8))
  have kept: "filter (\<lambda>box. 0.3 < last box) (remove_zero_only_boxes raw) = [row1, row2]"
    by (simp add: rem assms(6-8))
  show ?thesis
    unfolding convert_result_to_image_ok [OF assms(1-5) wf] kept
    by simp
qed

lemma binary64_small:
  "binary64 0 = 0" "binary64 1 = 1" "binary64 2 = 2" "binary64 8 = 8" "binary64 10 = 10"
  "binary64 20 = 20" "binary64 40 = 40" "binary64 50 = 50" "binary64 60 = 60"
  "binary64 100 = 100"
  by (simp_all add: binary64_def exponent_def py_round_def Let_def)

lemma example_state_shapes:
  "0 < length (heap (example_state g))"
  "shape (heap (example_state g) ! 0) = (100, 100, 3)"
  "shape (heap (example_state g) ! 1) = (100, 100, 3)"
  by (simp_all add: example_state_def example_image_def)

lemma nonzero_100: "(100::nat) \<noteq> 0"
  by simp

text \<open>
  Three rows at the thresholds 0.3 and 0.5: two rectangles and one.
\<close>

theorem threshold_monotone_witness:
  "\<exists>r1 s1 r2 s2.
     convert_result_to_image binary64 0 1 [[10, 10, 50, 50, 0.9], [20, 20, 60, 60, 0.4], [1, 1, 2, 2, 0.1]]
       0.3 True (example_state (\<lambda>_. 0)) = (Inr r1, s1) \<and>
     convert_result_to_image binary64 0 1 [[10, 10, 50, 50, 0.9], [20, 20, 60, 60, 0.4], [1, 1, 2, 2, 0.1]]
       0.5 True (example_state (\<lambda>_. 0)) = (Inr r2, s2) \<and>
     count_rectangles (heap s1 ! r1) = 2 \<and> count_rectangles (heap s2 ! r2) = 1"
proof -
  let ?boxes = "[[10, 10, 50, 50, 0.9], [20, 20, 60, 60, 0.4], [1, 1, 2, 2, 0.1 :: real]]"
  have wf: "\<forall>box\<in>set ?boxes. length box = 5"
    by simp
  have le: "(0.3 :: real) \<le> 0.5"
    by simp
  have 0: "count_rectangles (heap (example_state (\<lambda>_. 0)) ! 0) = 0"
    by (simp add: count_rectangles_def example_state_def example_image_def)
  have k1: "length (filter (\<lambda>box. 0.3 < last box) ?boxes) = 2"
    and k2: "length (filter (\<lambda>box. 0.5 < last box) ?boxes) = 1"
    by simp_all
  note sh = example_state_shapes [of "\<lambda>_. 0"]
  from threshold_monotone [OF sh nonzero_100 nonzero_100 wf le refl refl refl, where conf_labels = True and rnd = binary64]
  show ?thesis
    unfolding 0 k1 k2 by auto
qed

text \<open>
  At the threshold -1 the row of five zeros is removed; the row with a zero box and
  confidence 0.9 is rendered.
\<close>

theorem zero_only_rows_removed_witness:
  "drawn (heap (snd (convert_result_to_image binary64 0 1
      (remove_zero_only_boxes [[0, 0, 0, 0, 0], [10, 10, 50, 50, 0.9], [0, 0, 0, 0, 0.9]])
      (- 1) False (example_state (\<lambda>_. 0)))) ! 2) =
     [CvtColor_BGR2RGB, Rectangle (10, 10) (50, 50) green 3 LINE_8,
      Rectangle (0, 10) (0, 10) green 3 LINE_8]"
proof -
  let ?raw = "[[0, 0, 0, 0, 0], [10, 10, 50, 50, 0.9], [0, 0, 0, 0, 0.9 :: real]]"
  have wf: "\<forall>box\<in>set ?raw. length box = 5"
    by simp
  have kept: "filter (\<lambda>box. - 1 < last box \<and> \<not> list_all (\<lambda>v. v = 0) box) ?raw =
      [[10, 10, 50, 50, 0.9], [0, 0, 0, 0, 0.9]]"
    by simp
  note sh = example_state_shapes [of "\<lambda>_. 0"]
  from zero_only_rows_removed [OF sh nonzero_100 nonzero_100 wf refl,
      where threshold = "- 1" and conf_labels = False and rnd = binary64]
  show ?thesis
    unfolding kept
    by (simp add: example_state_def example_image_def retained_box_calls_def py_int_def
          binary64_small)
qed

text \<open>
  Claim C2, as stated, fails: the row with the box \<open>[0, 0, 0, 0]\<close> and the confidence 0.9
  is kept by the removal of the zero-only rows and is rendered at the threshold 0.3.
\<close>

theorem zero_box_rendered_counterexample:
  "remove_zero_only_boxes [[0, 0, 0, 0, 0.9]] = [[0, 0, 0, 0, 0.9]] \<and>
   drawn (heap (snd (convert_result_to_image binary64 0 1 (remove_zero_only_boxes [[0, 0, 0, 0, 0.9]])
                       0.3 False (example_state (\<lambda>_. 0)))) ! 2) =
     [CvtColor_BGR2RGB, Rectangle (0, 10) (0, 10) green 3 LINE_8]"
  by (simp add: remove_zero_only_boxes_def convert_result_to_image_def example_state_def
        example_image_def cv2_cvtColor_BGR2RGB_def alloc_def rescale_corners_def py_int_def
        cv2_rectangle_def cv2_call_def binary64_small)

text \<open>
  The scenario with the row of zeros in the second place.
\<close>

theorem scenario_three_rows_and_zero_row_witness:
  "filter (\<lambda>box. 0.3 < last box)
     (remove_zero_only_boxes
        [[10, 10, 50, 50, 0.9], [0, 0, 0, 0, 0], [20, 20, 60, 60, 0.4], [1, 1, 2, 2, 0.1]])
     = [[10, 10, 50, 50, 0.9], [20, 20, 60, 60, 0.4]] \<and>
   drawn (heap (snd (convert_result_to_image binary64 0 1
      (remove_zero_only_boxes
         [[10, 10, 50, 50, 0.9], [0, 0, 0, 0, 0], [20, 20, 60, 60, 0.4], [1, 1, 2, 2, 0.1]])
      0.3 False (example_state (\<lambda>_. 0)))) ! 2) =
     [CvtColor_BGR2RGB, Rectangle (10, 10) (50, 50) green 3 LINE_8,
      Rectangle (20, 20) (60, 60) green 3 LINE_8]"
proof -
  have split: "[[10, 10, 50, 50, 0.9]] @ [[20, 20, 60, 60, 0.4], [1, 1, 2, 2, 0.1]] =
      [[10, 10, 50, 50, 0.9], [20, 20, 60, 60, 0.4], [1, 1, 2, 2, 0.1 :: real]]"
    by simp
  have raw: "[[10, 10, 50, 50, 0.9], [0, 0, 0, 0, 0], [20, 20, 60, 60, 0.4], [1, 1, 2, 2, 0.1 :: real]]
      = [[10, 10, 50, 50, 0.9]] @ [[0, 0, 0, 0, 0]] @ [[20, 20, 60, 60, 0.4], [1, 1, 2, 2, 0.1]]"
    by simp
  note sh = example_state_shapes [of "\<lambda>_. 0"]
  from scenario_three_rows_and_zero_row [OF sh nonzero_100 nonzero_100 refl refl refl split raw,
      where conf_labels = False and rnd = binary64]
  show ?thesis
    by (simp add: example_state_def example_image_def retained_box_calls_def py_int_def
          binary64_small)
qed

text \<open>
  The rounding at work: \<open>11 * (1920 / 704)\<close> is 30 in exact arithmetic and truncates to 29
  in double precision, \<open>49 * (10 / 490)\<close> is 1 and truncates to 0; the double nearest to
  0.1; a tie that goes to the even significand.  Small integers are not changed.
\<close>

lemma binary64_examples:
  "py_int (binary64 (11 * binary64 (1920 / 704))) = 29"
  "py_int (binary64 (49 * binary64 (10 / 490))) = 0"
  "binary64 0.1 = 3602879701896397 / 2 ^ 55"
  "binary64 (2 ^ 53 + 1) = 2 ^ 53"
  by (simp_all add: binary64_def exponent_def py_round_def py_int_def Let_def)

text \<open>
  The scenario of claim C1: the box \<open>[10, 10, 50, 50]\<close> of a 255 by 255 resized image on a
  510 by 510 image is rescaled to \<open>[20, 20, 100, 100]\<close>, and a top edge that scales to 2 is
  drawn at 10.
\<close>

lemma rescale_scenario:
  "rescale_corners binary64 (binary64 (real 510 / real 255)) (binary64 (real 510 / real 255))
     [10, 10, 50, 50] = [20, 20, 100, 100]"
  "rescale_corners binary64 (binary64 (real 480 / real 480)) (binary64 (real 480 / real 480))
     [20, 2, 60, 40] = [20, 10, 60, 40]"
  by (simp_all add: rescale_corners_4 binary64_small py_int_def)

text \<open>
  Claim C1 on the code, at a box at the top of the image.  On a 100 by 100 image whose
  resized version is 100 by 100 (both ratios are 1 and every product is a small integer,
  which double precision computes exactly), the row \<open>[20, 2, 60, 8, 0.5]\<close> passes the
  threshold 0.3.  Its bottom edge scales and truncates to 8.  The claim has the clamp on
  the top edge only, so the rectangle would be drawn from \<open>(20, 10)\<close> to \<open>(60, 8)\<close>; the
  code, whose test \<^verbatim>\<open>idx % 2\<close> holds for the bottom edge as well, draws it from \<open>(20, 10)\<close> to
  \<open>(60, 10)\<close>.
\<close>

theorem bottom_edge_clamped:
  "py_int (binary64 (8 * binary64 (real 100 / real 100))) = 8 \<and>
   drawn (heap (snd (convert_result_to_image binary64 0 1 [[20, 2, 60, 8, 0.5]] 0.3 False
                       (example_state (\<lambda>_. 0)))) ! 2) =
     [CvtColor_BGR2RGB, Rectangle (20, 10) (60, 10) green 3 LINE_8]"
  by (simp add: convert_result_to_image_def example_state_def example_image_def
        cv2_cvtColor_BGR2RGB_def alloc_def rescale_corners_def py_int_def cv2_rectangle_def
        cv2_call_def binary64_small)

section \<open>Rescaling there and back\<close>







text \<open>
  The same round trip of the box \<open>[1, 11, 50, 50]\<close> in double precision gives the same
  corners.
\<close>

lemma rescale_round_trip_double_precision:
  "rescale_corners binary64 (binary64 (real 100 / real 150)) (binary64 (real 100 / real 150))
     (map real_of_int
        (rescale_corners binary64 (binary64 (real 150 / real 100)) (binary64 (real 150 / real 100))
           [1, 11, 50, 50])) = [0, 10, 50, 50]"
  by (simp add: rescale_corners_4 binary64_def exponent_def py_round_def py_int_def Let_def)


end
